theory Spec2Isabelle
  imports Complex_Main
begin

section \<open>Conventions\<close>

text \<open>
  The repository is browser JavaScript: two class files, the header controller
  (\<^verbatim>\<open>class Header\<close>, the variant with the navigation overlay) and
  \<^verbatim>\<open>js/main.js\<close>. Every class mutates the DOM, so each handler is a function from
  the state it touches to the new state. DOM reads that the code does not control
  (the window's scroll offset, element geometry, global bindings) are fields of that state.

  A \<^verbatim>\<open>classList\<close> is a set of class names, an element's \<^verbatim>\<open>style\<close> maps a property
  name to its text (the empty text when unset), attributes are a partial map.
  Strings are lists of characters below 256, one per UTF-16 code unit of the source.
  Pixel offsets of the scroll position and \<^verbatim>\<open>Date.now()\<close> are integers; pointer
  coordinates, box sizes and \<^verbatim>\<open>performance.now()\<close> are reals standing for the
  source's doubles.
\<close>

type_synonym classList = "string set"

definition classToggle :: "string \<Rightarrow> classList \<Rightarrow> classList" where
  "classToggle c cl = (if c \<in> cl then cl - {c} else insert c cl)"

text \<open>Number to string conversion of an integer, as a template literal or \<^verbatim>\<open>+\<close>
  with a string performs it: decimal digits, a leading minus sign when negative.\<close>

fun showNat :: "nat \<Rightarrow> string" where
  "showNat n = (if n < 10 then [''0123456789'' ! n]
                else showNat (n div 10) @ [''0123456789'' ! (n mod 10)])"

declare showNat.simps [simp del]

definition showInt :: "int \<Rightarrow> string" where
  "showInt i = (if i < 0 then CHR ''-'' # showNat (nat (- i)) else showNat (nat i))"

section \<open>The header controller\<close>

text \<open>
  The calls the controller makes on the window that are visible outside it, in the
  order it makes them.
\<close>

datatype apiCall =
    PreventDefault
  | ScrollToSmooth int
  | ScrollToInstant int
  | PushState string

text \<open>
  The fields \<^verbatim>\<open>isMenuOpen\<close> and \<^verbatim>\<open>scrollPosition\<close> are the instance's own; \<open>inThrottle\<close>
  is the variable the closure returned by \<^verbatim>\<open>throttle\<close> captures. The rest is the DOM:
  the class lists of the header, the toggle button, the overlay, the root element and
  the body, the toggle's attributes, the body's inline style, the window's scroll
  offset (\<^verbatim>\<open>window.scrollY\<close>, \<^verbatim>\<open>window.pageYOffset\<close> and, in standards mode,
  \<^verbatim>\<open>document.documentElement.scrollTop\<close> all read it), the destination of a smooth
  scroll in progress, the header's rendered height, and \<^verbatim>\<open>offsetTop\<close> of the element
  with a given id, if there is one.
\<close>

record header =
  isMenuOpen :: bool
  scrollPosition :: int
  inThrottle :: bool
  headerClassList :: classList
  toggleClassList :: classList
  toggleAttrs :: "string \<rightharpoonup> string"
  overlayClassList :: classList
  htmlClassList :: classList
  bodyClassList :: classList
  bodyStyle :: "string \<Rightarrow> string"
  windowScrollY :: int
  smoothScrollTarget :: "int option"
  headerOffsetHeight :: int
  elementOffsetTop :: "string \<rightharpoonup> int"
  apiCalls :: "apiCall list"

definition SCROLL_THRESHOLD :: int where
  "SCROLL_THRESHOLD = 50"

text \<open>The two forms of \<^verbatim>\<open>window.scrollTo\<close>. An instant scroll moves the offset
  and ends a smooth scroll in progress; a smooth scroll only sets the destination.
  \<^verbatim>\<open>history.pushState\<close> and \<^verbatim>\<open>e.preventDefault\<close> are recorded as calls.\<close>

definition scrollToInstant :: "int \<Rightarrow> header \<Rightarrow> header" where
  "scrollToInstant y st =
     st\<lparr>windowScrollY := y, smoothScrollTarget := None,
        apiCalls := apiCalls st @ [ScrollToInstant y]\<rparr>"

definition scrollToSmooth :: "int \<Rightarrow> header \<Rightarrow> header" where
  "scrollToSmooth y st =
     st\<lparr>smoothScrollTarget := Some y, apiCalls := apiCalls st @ [ScrollToSmooth y]\<rparr>"

definition pushState :: "string \<Rightarrow> header \<Rightarrow> header" where
  "pushState h st = st\<lparr>apiCalls := apiCalls st @ [PushState h]\<rparr>"

definition preventDefault :: "header \<Rightarrow> header" where
  "preventDefault st = st\<lparr>apiCalls := apiCalls st @ [PreventDefault]\<rparr>"

subsection \<open>Scroll state\<close>

text \<open>The function passed to \<^verbatim>\<open>throttle\<close> in \<^verbatim>\<open>handleScroll\<close>.\<close>

definition scrollHandler :: "header \<Rightarrow> header" where
  "scrollHandler st =
     (let scrollY = windowScrollY st in
      if scrollY > SCROLL_THRESHOLD
      then st\<lparr>headerClassList := insert ''scrolled'' (headerClassList st)\<rparr>
      else st\<lparr>headerClassList := headerClassList st - {''scrolled''}\<rparr>)"

text \<open>\<^verbatim>\<open>throttle(func, limit)\<close>: the returned function runs \<open>func\<close> and sets the
  flag when the flag is clear, and does nothing otherwise; the timer it starts clears
  the flag.\<close>

definition throttle :: "(header \<Rightarrow> header) \<Rightarrow> header \<Rightarrow> header" where
  "throttle func st = (if \<not> inThrottle st then (func st)\<lparr>inThrottle := True\<rparr> else st)"

definition throttleTimeout :: "header \<Rightarrow> header" where
  "throttleTimeout st = st\<lparr>inThrottle := False\<rparr>"

subsection \<open>Menu toggle and scroll lock\<close>

definition disableScroll :: "header \<Rightarrow> header" where
  "disableScroll st =
     (let pageYOffset = windowScrollY st;
          scrollTop = windowScrollY st;
          st1 = st\<lparr>scrollPosition := (if pageYOffset \<noteq> 0 then pageYOffset else scrollTop)\<rparr>;
          st2 = st1\<lparr>htmlClassList := insert ''menu-open'' (htmlClassList st1)\<rparr>;
          st3 = st2\<lparr>bodyClassList := insert ''menu-open'' (bodyClassList st2)\<rparr>
      in st3\<lparr>bodyStyle := (bodyStyle st3)
            (''position'' := ''fixed'',
             ''top'' := ''-'' @ showInt (scrollPosition st3) @ ''px'',
             ''width'' := ''100%'',
             ''overflow'' := ''hidden'')\<rparr>)"

definition enableScroll :: "header \<Rightarrow> header" where
  "enableScroll st =
     (let st1 = st\<lparr>htmlClassList := htmlClassList st - {''menu-open''}\<rparr>;
          st2 = st1\<lparr>bodyClassList := bodyClassList st1 - {''menu-open''}\<rparr>;
          st3 = st2\<lparr>bodyStyle := (bodyStyle st2)
            (''position'' := '''', ''top'' := '''', ''width'' := '''', ''overflow'' := '''')\<rparr>
      in scrollToInstant (scrollPosition st3) st3)"

definition boolString :: "bool \<Rightarrow> string" where
  "boolString b = (if b then ''true'' else ''false'')"

text \<open>The two labels; the last letter of \<^verbatim>\<open>men\<close>... is U+00FA.\<close>

definition labelCerrar :: string where
  "labelCerrar = ''Cerrar men'' @ [CHR 0xFA]"

definition labelAbrir :: string where
  "labelAbrir = ''Abrir men'' @ [CHR 0xFA]"

definition toggleMenu :: "header \<Rightarrow> header" where
  "toggleMenu st =
     (let st1 = st\<lparr>isMenuOpen := \<not> isMenuOpen st\<rparr>;
          st2 = st1\<lparr>toggleClassList := classToggle ''active'' (toggleClassList st1)\<rparr>;
          st3 = st2\<lparr>toggleAttrs := (toggleAttrs st2)(''aria-expanded'' \<mapsto> boolString (isMenuOpen st2))\<rparr>;
          st4 = st3\<lparr>overlayClassList := classToggle ''active'' (overlayClassList st3)\<rparr>;
          st5 = st4\<lparr>headerClassList := classToggle ''menu-open'' (headerClassList st4)\<rparr>;
          label = (if isMenuOpen st5 then labelCerrar else labelAbrir);
          st6 = st5\<lparr>toggleAttrs := (toggleAttrs st5)(''aria-label'' \<mapsto> label)\<rparr>
      in if isMenuOpen st6 then disableScroll st6 else enableScroll st6)"

definition closeMenu :: "header \<Rightarrow> header" where
  "closeMenu st =
     (let st1 = st\<lparr>isMenuOpen := False\<rparr>;
          st2 = st1\<lparr>toggleClassList := toggleClassList st1 - {''active''}\<rparr>;
          st3 = st2\<lparr>overlayClassList := overlayClassList st2 - {''active''}\<rparr>;
          st4 = st3\<lparr>headerClassList := headerClassList st3 - {''menu-open''}\<rparr>;
          st5 = st4\<lparr>toggleAttrs := (toggleAttrs st4)(''aria-expanded'' \<mapsto> ''false'')\<rparr>;
          st6 = st5\<lparr>toggleAttrs := (toggleAttrs st5)(''aria-label'' \<mapsto> labelAbrir)\<rparr>
      in enableScroll st6)"

text \<open>The keydown listener of \<^verbatim>\<open>handleMenuToggle\<close>.\<close>

definition escapeKeydown :: "string \<Rightarrow> header \<Rightarrow> header" where
  "escapeKeydown key st = (if key = ''Escape'' \<and> isMenuOpen st then closeMenu st else st)"

subsection \<open>Smooth anchor navigation\<close>

text \<open>
  The click listener that \<^verbatim>\<open>handleSmoothScroll\<close> installs on a link, given the
  link's \<^verbatim>\<open>href\<close> attribute (\<open>None\<close> when it has none). The statements run in the
  source's order: \<^verbatim>\<open>window.scrollTo\<close> with the smooth behaviour, then \<^verbatim>\<open>closeMenu\<close>
  if the menu is open, then \<^verbatim>\<open>history.pushState\<close>.
\<close>

definition smoothScrollClick :: "string option \<Rightarrow> header \<Rightarrow> header" where
  "smoothScrollClick href st =
     (case href of
        None \<Rightarrow> st
      | Some h \<Rightarrow>
          if h \<noteq> [] \<and> take 1 h = ''#'' then
            (let st1 = preventDefault st;
                 targetId = drop 1 h
             in case elementOffsetTop st1 targetId of
                  None \<Rightarrow> st1
                | Some offsetTop \<Rightarrow>
                    (let headerHeight = headerOffsetHeight st1;
                         targetPosition = offsetTop - headerHeight;
                         st2 = scrollToSmooth targetPosition st1;
                         st3 = (if isMenuOpen st2 then closeMenu st2 else st2)
                     in pushState h st3))
          else st)"

text \<open>
  A link and the click listeners it carries, in the order \<^verbatim>\<open>init\<close> installs them:
  \<^verbatim>\<open>handleMenuToggle\<close> gives every \<^verbatim>\<open>.nav-item\<close> a listener that closes the menu,
  then \<^verbatim>\<open>handleSmoothScroll\<close> gives its listener to the elements of
  \<^verbatim>\<open>[...this.navLinks, ...this.navItems]\<close>, one per occurrence.
\<close>

record link =
  linkHref :: "string option"
  inNavLinks :: bool
  inNavItems :: bool

definition clickLink :: "link \<Rightarrow> header \<Rightarrow> header" where
  "clickLink l st =
     (let st1 = (if inNavItems l then closeMenu st else st);
          st2 = (if inNavLinks l then smoothScrollClick (linkHref l) st1 else st1)
      in if inNavItems l then smoothScrollClick (linkHref l) st2 else st2)"

text \<open>The state the constructor leaves on a page whose window is at offset \<open>p\<close>,
  with a header \<open>h\<close> pixels high and the given elements: menu closed, nothing saved.\<close>

definition newHeader :: "int \<Rightarrow> int \<Rightarrow> (string \<rightharpoonup> int) \<Rightarrow> header" where
  "newHeader p h tops =
     \<lparr>isMenuOpen = False, scrollPosition = 0, inThrottle = False,
      headerClassList = {}, toggleClassList = {}, toggleAttrs = Map.empty,
      overlayClassList = {}, htmlClassList = {}, bodyClassList = {},
      bodyStyle = (\<lambda>_. ''''), windowScrollY = p, smoothScrollTarget = None,
      headerOffsetHeight = h, elementOffsetTop = tops, apiCalls = []\<rparr>"

section \<open>Number animation of the statistics\<close>

text \<open>
  \<^verbatim>\<open>parseInt(finalNumber.replace(/[^\d]/g, ''))\<close>: the decimal digits of the text, read
  as a number; \<open>None\<close> is \<^verbatim>\<open>NaN\<close>, the result on a text with no digit. The value
  is exact here, where the source rounds a number beyond \<open>2^53\<close> to a double.
\<close>

definition isDigit :: "char \<Rightarrow> bool" where
  "isDigit c = (c \<in> set ''0123456789'')"

definition digitValue :: "char \<Rightarrow> nat" where
  "digitValue c = of_char c - 48"

definition parseIntDigits :: "string \<Rightarrow> nat option" where
  "parseIntDigits s =
     (let ds = filter isDigit s
      in if ds = [] then None else Some (foldl (\<lambda>acc c. acc * 10 + digitValue c) 0 ds))"

text \<open>
  What \<^verbatim>\<open>animateNumber\<close> binds for the closure \<^verbatim>\<open>updateNumber\<close>, together with the
  text of the number element and whether an animation frame is requested.
\<close>

record numberAnimation =
  finalNumber :: string
  numericValue :: nat
  suffix :: string
  startTime :: real
  current :: int
  textContent :: string
  framePending :: bool



text \<open>
  \<^verbatim>\<open>animateNumber\<close> on the text of the \<^verbatim>\<open>.stat__number\<close> child (\<open>None\<close> when the
  statistic has no such child) at time \<open>now\<close>; \<open>None\<close> is either early return.
\<close>

definition animateNumber :: "string option \<Rightarrow> real \<Rightarrow> numberAnimation option" where
  "animateNumber numberElement now =
     (case numberElement of
        None \<Rightarrow> None
      | Some txt \<Rightarrow>
          (case parseIntDigits txt of
             None \<Rightarrow> None
           | Some v \<Rightarrow>
               Some \<lparr>finalNumber = txt, numericValue = v,
                     suffix = filter (\<lambda>c. \<not> isDigit c) txt,
                     startTime = now, current = 0, textContent = txt,
                     framePending = True\<rparr>))"



section \<open>Viewport watchers\<close>

text \<open>An \<^verbatim>\<open>IntersectionObserverEntry\<close>: the target element, by its index among the
  observed elements, and \<^verbatim>\<open>isIntersecting\<close>.\<close>

type_synonym entry = "nat \<times> bool"

subsection \<open>Entrance of the statistics\<close>

text \<open>
  The class list of each \<^verbatim>\<open>.stat\<close> element, the text of its number child, the calls
  of \<^verbatim>\<open>animateNumber\<close> made so far (by target), and the animations they started.
\<close>

record scrollAnimations =
  statClassList :: "nat \<Rightarrow> classList"
  statNumberText :: "nat \<Rightarrow> string option"
  animateNumberCalls :: "nat list"
  animations :: "(nat \<times> numberAnimation) list"

definition statEntry :: "real \<Rightarrow> entry \<Rightarrow> scrollAnimations \<Rightarrow> scrollAnimations" where
  "statEntry now e st =
     (let target = fst e in
      if snd e \<and> ''animated'' \<notin> statClassList st target then
        (let st1 = st\<lparr>statClassList :=
                      (statClassList st)(target := insert ''animated'' (statClassList st target))\<rparr>
         in if ''stat'' \<in> statClassList st1 target then
              (let st2 = st1\<lparr>animateNumberCalls := animateNumberCalls st1 @ [target]\<rparr>
               in case animateNumber (statNumberText st2 target) now of
                    None \<Rightarrow> st2
                  | Some a \<Rightarrow> st2\<lparr>animations := animations st2 @ [(target, a)]\<rparr>)
            else st1)
      else st)"

text \<open>The observer's callback, called at time \<open>now\<close> with a batch of entries.\<close>

definition statObserver :: "real \<times> entry list \<Rightarrow> scrollAnimations \<Rightarrow> scrollAnimations" where
  "statObserver batch st = fold (statEntry (fst batch)) (snd batch) st"

definition newScrollAnimations ::
  "(nat \<Rightarrow> classList) \<Rightarrow> (nat \<Rightarrow> string option) \<Rightarrow> scrollAnimations" where
  "newScrollAnimations cls txts =
     \<lparr>statClassList = cls, statNumberText = txts, animateNumberCalls = [], animations = []\<rparr>"

subsection \<open>Lazy images\<close>

text \<open>
  Each image's \<^verbatim>\<open>src\<close>, its \<^verbatim>\<open>data-src\<close> attribute, its class list, the set of
  images the observer watches, and the assignments \<^verbatim>\<open>img.src = img.dataset.src\<close> made
  so far (by image).
\<close>

record lazyImages =
  imgSrc :: "nat \<Rightarrow> string"
  imgDataSrc :: "nat \<Rightarrow> string option"
  imgClassList :: "nat \<Rightarrow> classList"
  observedImages :: "nat set"
  srcSwaps :: "nat list"

definition imageEntry :: "entry \<Rightarrow> lazyImages \<Rightarrow> lazyImages" where
  "imageEntry e st =
     (if snd e then
        (let img = fst e;
             st1 = (case imgDataSrc st img of
                      None \<Rightarrow> st
                    | Some s \<Rightarrow>
                        if s \<noteq> [] then
                          st\<lparr>imgSrc := (imgSrc st)(img := s),
                             imgDataSrc := (imgDataSrc st)(img := None),
                             srcSwaps := srcSwaps st @ [img]\<rparr>
                        else st);
             st2 = st1\<lparr>imgClassList := (imgClassList st1)(img := insert ''loaded'' (imgClassList st1 img))\<rparr>
         in st2\<lparr>observedImages := observedImages st2 - {img}\<rparr>)
      else st)"

definition imageObserver :: "entry list \<Rightarrow> lazyImages \<Rightarrow> lazyImages" where
  "imageObserver entries st = fold imageEntry entries st"

definition newLazyImages :: "(nat \<Rightarrow> string) \<Rightarrow> (nat \<Rightarrow> string option) \<Rightarrow> nat set \<Rightarrow> lazyImages" where
  "newLazyImages srcs dataSrcs imgs =
     \<lparr>imgSrc = srcs, imgDataSrc = dataSrcs, imgClassList = (\<lambda>_. {}),
      observedImages = imgs, srcSwaps = []\<rparr>"

subsection \<open>Footer reveal\<close>

datatype footerAction = AnimateTop | AnimateLetter nat

text \<open>
  The instance's flag, the number of letter elements, and the timers
  \<^verbatim>\<open>triggerAnimations\<close> has started, each with its delay in milliseconds.
\<close>

record footerAnimations =
  isAnimated :: bool
  footerLetters :: nat
  footerTimers :: "(nat \<times> footerAction) list"

definition FOOTER_ANIMATION_DELAY :: nat where
  "FOOTER_ANIMATION_DELAY = 100"

definition triggerAnimations :: "footerAnimations \<Rightarrow> footerAnimations" where
  "triggerAnimations st =
     st\<lparr>footerTimers := footerTimers st @ [(FOOTER_ANIMATION_DELAY, AnimateTop)]
          @ map (\<lambda>index. (500 + index * 100, AnimateLetter index)) [0..<footerLetters st]\<rparr>"

definition footerEntry :: "entry \<Rightarrow> footerAnimations \<Rightarrow> footerAnimations" where
  "footerEntry e st =
     (if snd e \<and> \<not> isAnimated st
      then (triggerAnimations st)\<lparr>isAnimated := True\<rparr>
      else st)"

definition footerObserver :: "entry list \<Rightarrow> footerAnimations \<Rightarrow> footerAnimations" where
  "footerObserver entries st = fold footerEntry entries st"

definition newFooterAnimations :: "nat \<Rightarrow> footerAnimations" where
  "newFooterAnimations n = \<lparr>isAnimated = False, footerLetters = n, footerTimers = []\<rparr>"

section \<open>Portfolio touch interaction\<close>

text \<open>A portfolio item: its class list and the \<^verbatim>\<open>touchStartTime\<close> its two touch
  listeners share. The items are the elements of the node list, told apart by index;
  \<open>now\<close> is the value of \<^verbatim>\<open>Date.now()\<close>. The call \<^verbatim>\<open>e.preventDefault()\<close> of a quick
  tap acts on the event only.\<close>

record portfolioItem =
  itemClassList :: classList
  touchStartTime :: int

definition touchstart :: "nat \<Rightarrow> int \<Rightarrow> portfolioItem list \<Rightarrow> portfolioItem list" where
  "touchstart i now items = items[i := (items ! i)\<lparr>touchStartTime := now\<rparr>]"

definition touchend :: "nat \<Rightarrow> int \<Rightarrow> portfolioItem list \<Rightarrow> portfolioItem list" where
  "touchend i now items =
     (let touchDuration = now - touchStartTime (items ! i) in
      if touchDuration < 200 then
        (let items1 = items[i := (items ! i)\<lparr>itemClassList :=
                         classToggle ''portfolio__item--touched'' (itemClassList (items ! i))\<rparr>]
         in map (\<lambda>j. if j \<noteq> i
                      then (items1 ! j)\<lparr>itemClassList :=
                             itemClassList (items1 ! j) - {''portfolio__item--touched''}\<rparr>
                      else items1 ! j)
                [0..<length items1])
      else items)"

definition touched :: "portfolioItem \<Rightarrow> bool" where
  "touched item = (''portfolio__item--touched'' \<in> itemClassList item)"

section \<open>Draggable polaroids\<close>

text \<open>
  The methods \<^verbatim>\<open>dragStart\<close>, \<^verbatim>\<open>dragMove\<close> and \<^verbatim>\<open>dragEnd\<close> of \<^verbatim>\<open>MiniPolaroids\<close>
  name \<^verbatim>\<open>initialX\<close>, \<^verbatim>\<open>initialY\<close>, \<^verbatim>\<open>currentX\<close>, \<^verbatim>\<open>currentY\<close>, \<^verbatim>\<open>xOffset\<close>
  and \<^verbatim>\<open>yOffset\<close>, which neither the method, nor the class, nor the top level of the
  file declares (the \<^verbatim>\<open>let\<close> declarations of these names are local to
  \<^verbatim>\<open>makeDraggable\<close>). Such a name resolves, if at all, to a binding of the global
  object, which the page supplies: \<open>globals\<close> is that binding, for the names that
  hold numbers. The file is in strict mode: reading an unbound name and assigning to an
  unbound name both throw \<^verbatim>\<open>ReferenceError\<close>, and an assignment never creates a
  binding.
\<close>

datatype jsError = ReferenceError string | TypeError string

text \<open>A polaroid: the \<^verbatim>\<open>isDragging\<close> property the handlers put on the element
  (absent, hence false, until one is assigned), its inline cursor, its inline transform
  (the translation in pixels and the rotation text of the template literal), its class
  list, and the size of its bounding rectangle.\<close>

record polaroid =
  isDragging :: bool
  cursor :: string
  transform :: "(real \<times> real \<times> string) option"
  polaroidClassList :: classList
  elementWidth :: real
  elementHeight :: real

text \<open>The state the handlers work on: the global bindings, the polaroids, and the
  size of the bounding rectangle of \<^verbatim>\<open>this.aboutSection\<close> (\<open>None\<close> when the page has no
  \<^verbatim>\<open>.about\<close> element and the field is \<^verbatim>\<open>null\<close>).\<close>

record dragState =
  globals :: "string \<rightharpoonup> real"
  polaroids :: "polaroid list"
  aboutRect :: "(real \<times> real) option"

text \<open>A mouse event with its type and client position, or a touch event with the
  client positions of its touches. A touch event's type is never a mouse type.\<close>

datatype pointerEvent =
    MouseEv string real real
  | TouchEv "(real \<times> real) list"

text \<open>\<^verbatim>\<open>e.type === T ? e.clientX : e.touches[0].clientX\<close>, and the same for y: a
  mouse event of another type has no \<^verbatim>\<open>touches\<close>, a touch list may be empty.\<close>

definition eventClient :: "string \<Rightarrow> pointerEvent \<Rightarrow> jsError + (real \<times> real)" where
  "eventClient mouseType e =
     (case e of
        MouseEv ty x y \<Rightarrow> if ty = mouseType then Inr (x, y) else Inl (TypeError ''touches'')
      | TouchEv ts \<Rightarrow> (case ts of [] \<Rightarrow> Inl (TypeError ''touches[0]'') | t # _ \<Rightarrow> Inr t))"

text \<open>A handler step returns the state it leaves and either a value or the error it
  threw; \<open>thenJS\<close> runs the next step unless one was thrown.\<close>

type_synonym 'a js = "dragState \<Rightarrow> (jsError + 'a) \<times> dragState"

definition thenJS :: "'a js \<Rightarrow> ('a \<Rightarrow> 'b js) \<Rightarrow> 'b js" where
  "thenJS m f st = (case m st of (Inl err, st1) \<Rightarrow> (Inl err, st1) | (Inr v, st1) \<Rightarrow> f v st1)"

definition returnJS :: "'a \<Rightarrow> 'a js" where
  "returnJS v st = (Inr v, st)"

definition liftJS :: "jsError + 'a \<Rightarrow> 'a js" where
  "liftJS r st = (r, st)"

definition getVar :: "string \<Rightarrow> real js" where
  "getVar x st = (case globals st x of None \<Rightarrow> (Inl (ReferenceError x), st) | Some v \<Rightarrow> (Inr v, st))"

definition setVar :: "string \<Rightarrow> real \<Rightarrow> unit js" where
  "setVar x v st =
     (case globals st x of
        None \<Rightarrow> (Inl (ReferenceError x), st)
      | Some _ \<Rightarrow> (Inr (), st\<lparr>globals := (globals st)(x \<mapsto> v)\<rparr>))"

definition updatePolaroid :: "nat \<Rightarrow> (polaroid \<Rightarrow> polaroid) \<Rightarrow> unit js" where
  "updatePolaroid i f st = (Inr (), st\<lparr>polaroids := (polaroids st)[i := f (polaroids st ! i)]\<rparr>)"

definition getOriginalRotation :: "polaroid \<Rightarrow> string" where
  "getOriginalRotation element =
     (let cl = polaroidClassList element in
      if ''mini-polaroid--1'' \<in> cl then ''rotate(-15deg)''
      else if ''mini-polaroid--2'' \<in> cl then ''rotate(12deg)''
      else if ''mini-polaroid--3'' \<in> cl then ''rotate(8deg)''
      else if ''mini-polaroid--4'' \<in> cl then ''rotate(-10deg)''
      else if ''mini-polaroid--5'' \<in> cl then ''rotate(20deg)''
      else if ''mini-polaroid--6'' \<in> cl then ''rotate(-8deg)''
      else if ''mini-polaroid--7'' \<in> cl then ''rotate(-20deg)''
      else if ''mini-polaroid--8'' \<in> cl then ''rotate(15deg)''
      else if ''mini-polaroid--9'' \<in> cl then ''rotate(-5deg)''
      else if ''mini-polaroid--10'' \<in> cl then ''rotate(18deg)''
      else if ''mini-polaroid--11'' \<in> cl then ''rotate(-12deg)''
      else if ''mini-polaroid--12'' \<in> cl then ''rotate(6deg)''
      else if ''mini-polaroid--13'' \<in> cl then ''rotate(14deg)''
      else if ''mini-polaroid--14'' \<in> cl then ''rotate(-16deg)''
      else if ''mini-polaroid--15'' \<in> cl then ''rotate(9deg)''
      else if ''mini-polaroid--16'' \<in> cl then ''rotate(-7deg)''
      else [])"

text \<open>
  \<^verbatim>\<open>dragStart(e, element)\<close> for the polaroid with index \<open>i\<close>; \<open>inside\<close> is the value
  of \<^verbatim>\<open>e.target === element || element.contains(e.target)\<close>. In an assignment the
  right-hand side is read before the left-hand side is written. The call
  \<^verbatim>\<open>e.preventDefault()\<close> at the head of the guarded body of \<^verbatim>\<open>dragMove\<close> acts on the
  event only and leaves this state as it is.
\<close>

definition dragStart :: "pointerEvent \<Rightarrow> bool \<Rightarrow> nat \<Rightarrow> unit js" where
  "dragStart e inside i =
     thenJS (liftJS (eventClient ''mousedown'' e)) (\<lambda>(clientX, clientY).
     thenJS (getVar ''xOffset'') (\<lambda>xOffset.
     thenJS (setVar ''initialX'' (clientX - xOffset)) (\<lambda>_.
     thenJS (getVar ''yOffset'') (\<lambda>yOffset.
     thenJS (setVar ''initialY'' (clientY - yOffset)) (\<lambda>_.
     if inside
     then updatePolaroid i (\<lambda>el. el\<lparr>isDragging := True, cursor := ''grabbing''\<rparr>)
     else returnJS ())))))"

definition readAboutRect :: "(real \<times> real) js" where
  "readAboutRect st =
     (case aboutRect st of
        None \<Rightarrow> (Inl (TypeError ''getBoundingClientRect''), st)
      | Some r \<Rightarrow> (Inr r, st))"

definition readElementRect :: "nat \<Rightarrow> (real \<times> real) js" where
  "readElementRect i st =
     (Inr (elementWidth (polaroids st ! i), elementHeight (polaroids st ! i)), st)"

definition dragMove :: "pointerEvent \<Rightarrow> nat \<Rightarrow> unit js" where
  "dragMove e i st =
     (if isDragging (polaroids st ! i) then
        (thenJS (liftJS (eventClient ''mousemove'' e)) (\<lambda>(clientX, clientY).
         thenJS (getVar ''initialX'') (\<lambda>initialX.
         thenJS (setVar ''currentX'' (clientX - initialX)) (\<lambda>_.
         thenJS (getVar ''initialY'') (\<lambda>initialY.
         thenJS (setVar ''currentY'' (clientY - initialY)) (\<lambda>_.
         thenJS readAboutRect (\<lambda>(aboutWidth, aboutHeight).
         thenJS (readElementRect i) (\<lambda>(elWidth, elHeight).
         let maxX = aboutWidth - elWidth;
             maxY = aboutHeight - elHeight in
         thenJS (getVar ''currentX'') (\<lambda>currentX.
         thenJS (setVar ''currentX'' (max 0 (min currentX maxX))) (\<lambda>_.
         thenJS (getVar ''currentY'') (\<lambda>currentY.
         thenJS (setVar ''currentY'' (max 0 (min currentY maxY))) (\<lambda>_.
         thenJS (getVar ''currentX'') (\<lambda>currentX.
         thenJS (setVar ''xOffset'' currentX) (\<lambda>_.
         thenJS (getVar ''currentY'') (\<lambda>currentY.
         thenJS (setVar ''yOffset'' currentY) (\<lambda>_.
         thenJS (getVar ''currentX'') (\<lambda>currentX.
         thenJS (getVar ''currentY'') (\<lambda>currentY.
         updatePolaroid i (\<lambda>el. el\<lparr>transform :=
           Some (currentX, currentY, getOriginalRotation el)\<rparr>))))))))))))))))))) st
      else (Inr (), st))"

definition dragEnd :: "nat \<Rightarrow> unit js" where
  "dragEnd i =
     thenJS (getVar ''currentX'') (\<lambda>currentX.
     thenJS (setVar ''initialX'' currentX) (\<lambda>_.
     thenJS (getVar ''currentY'') (\<lambda>currentY.
     thenJS (setVar ''initialY'' currentY) (\<lambda>_.
     updatePolaroid i (\<lambda>el. el\<lparr>isDragging := False, cursor := ''pointer''\<rparr>)))))"

text \<open>
  The listeners of \<^verbatim>\<open>makeDraggable\<close>, had it been called for every polaroid: a press
  on polaroid \<open>i\<close> runs its \<^verbatim>\<open>dragStart\<close>; a move or a release anywhere in the document
  runs \<^verbatim>\<open>dragMove\<close> or \<^verbatim>\<open>dragEnd\<close> for every polaroid in turn. An error a listener
  throws is reported by the browser and the next listener runs on the state left.
\<close>

datatype pointerInteraction =
    MouseDown nat real real
  | MouseMove real real
  | MouseUp
  | TouchStart nat "(real \<times> real) list"
  | TouchMove "(real \<times> real) list"
  | TouchEnd

definition runListener :: "unit js \<Rightarrow> dragState \<Rightarrow> dragState" where
  "runListener h st = snd (h st)"

definition forEachPolaroid :: "(nat \<Rightarrow> unit js) \<Rightarrow> dragState \<Rightarrow> dragState" where
  "forEachPolaroid h st = fold (\<lambda>i. runListener (h i)) [0..<length (polaroids st)] st"

fun pointerDispatch :: "pointerInteraction \<Rightarrow> dragState \<Rightarrow> dragState" where
  "pointerDispatch (MouseDown i x y) st = runListener (dragStart (MouseEv ''mousedown'' x y) True i) st"
| "pointerDispatch (MouseMove x y) st = forEachPolaroid (dragMove (MouseEv ''mousemove'' x y)) st"
| "pointerDispatch MouseUp st = forEachPolaroid dragEnd st"
| "pointerDispatch (TouchStart i ts) st = runListener (dragStart (TouchEv ts) True i) st"
| "pointerDispatch (TouchMove ts) st = forEachPolaroid (dragMove (TouchEv ts)) st"
| "pointerDispatch TouchEnd st = forEachPolaroid dragEnd st"

section \<open>Application start\<close>

datatype component =
    ScrollAnimations
  | Portfolio
  | FooterAnimations
  | PerformanceOptimizer
  | AccessibilityEnhancer
  | ErrorHandler
  | MiniPolaroids
  | Header

datatype listener = InitializeComponents | NewHeader

text \<open>
  What page load builds: every instance constructed so far, the list
  \<^verbatim>\<open>app.components\<close>, the listeners waiting for \<^verbatim>\<open>DOMContentLoaded\<close>, and whether
  the body has received the class \<^verbatim>\<open>loaded\<close>.
\<close>

record pageLoad =
  constructed :: "component list"
  appComponents :: "component list"
  domListeners :: "listener list"
  bodyLoaded :: bool

text \<open>
  The \<^verbatim>\<open>try\<close> block of \<^verbatim>\<open>initializeComponents\<close>: one \<^verbatim>\<open>push(new C())\<close> after the other;
  \<open>throws c\<close> says that the constructor of \<open>c\<close> throws on this page, which ends the block.
\<close>

fun pushNew :: "(component \<Rightarrow> bool) \<Rightarrow> component list \<Rightarrow> pageLoad \<Rightarrow> pageLoad \<times> bool" where
  "pushNew throws [] st = (st, True)"
| "pushNew throws (c # cs) st =
     (if throws c then (st, False)
      else pushNew throws cs
             (st\<lparr>constructed := constructed st @ [c], appComponents := appComponents st @ [c]\<rparr>))"

definition initializeComponents :: "(component \<Rightarrow> bool) \<Rightarrow> pageLoad \<Rightarrow> pageLoad" where
  "initializeComponents throws st =
     (case pushNew throws
             [ScrollAnimations, Portfolio, FooterAnimations, PerformanceOptimizer,
              AccessibilityEnhancer, ErrorHandler] st of
        (st1, completed) \<Rightarrow> if completed then st1\<lparr>bodyLoaded := True\<rparr> else st1)"

text \<open>The last statements of \<^verbatim>\<open>main.js\<close> (\<^verbatim>\<open>new App()\<close>, whose \<^verbatim>\<open>init\<close> looks at
  \<^verbatim>\<open>document.readyState\<close>) and of the header file.\<close>

definition mainScript :: "(component \<Rightarrow> bool) \<Rightarrow> bool \<Rightarrow> pageLoad \<Rightarrow> pageLoad" where
  "mainScript throws loading st =
     (if loading then st\<lparr>domListeners := domListeners st @ [InitializeComponents]\<rparr>
      else initializeComponents throws st)"

definition headerScript :: "pageLoad \<Rightarrow> pageLoad" where
  "headerScript st = st\<lparr>domListeners := domListeners st @ [NewHeader]\<rparr>"

fun runDomListener :: "(component \<Rightarrow> bool) \<Rightarrow> listener \<Rightarrow> pageLoad \<Rightarrow> pageLoad" where
  "runDomListener throws InitializeComponents st = initializeComponents throws st"
| "runDomListener throws NewHeader st = st\<lparr>constructed := constructed st @ [Header]\<rparr>"

definition domContentLoaded :: "(component \<Rightarrow> bool) \<Rightarrow> pageLoad \<Rightarrow> pageLoad" where
  "domContentLoaded throws st = fold (runDomListener throws) (domListeners st) st"

definition emptyPage :: pageLoad where
  "emptyPage = \<lparr>constructed = [], appComponents = [], domListeners = [], bodyLoaded = False\<rparr>"

text \<open>Page load: the header file and \<^verbatim>\<open>main.js\<close> run (the latter while the document
  is still loading, or not), then \<^verbatim>\<open>DOMContentLoaded\<close> fires.\<close>

definition loadPage :: "(component \<Rightarrow> bool) \<Rightarrow> bool \<Rightarrow> pageLoad" where
  "loadPage throws loading =
     domContentLoaded throws (mainScript throws loading (headerScript emptyPage))"

section \<open>Example pages\<close>

text \<open>Concrete pages on which the theorems below are instantiated: a page with a
  section \<^verbatim>\<open>about\<close> at 2000 pixels, and pages with one polaroid of a given size in
  a container of a given size, without and with global bindings for the six names.\<close>

definition exampleTargets :: "string \<rightharpoonup> int" where
  "exampleTargets = [''about'' \<mapsto> 2000]"

definition examplePolaroid :: "real \<Rightarrow> real \<Rightarrow> polaroid" where
  "examplePolaroid w h =
     \<lparr>isDragging = False, cursor = [], transform = None,
      polaroidClassList = {''mini-polaroid'', ''mini-polaroid--1''},
      elementWidth = w, elementHeight = h\<rparr>"


definition examplePage :: "(string \<rightharpoonup> real) \<Rightarrow> real \<Rightarrow> real \<Rightarrow> real \<Rightarrow> real \<Rightarrow> dragState" where
  "examplePage g aw ah w h =
     \<lparr>globals = g, polaroids = [examplePolaroid w h], aboutRect = Some (aw, ah)\<rparr>"

definition exampleItems :: "portfolioItem list" where
  "exampleItems =
     [\<lparr>itemClassList = {''portfolio__item''}, touchStartTime = 0\<rparr>,
      \<lparr>itemClassList = {''portfolio__item'', ''portfolio__item--touched''}, touchStartTime = 0\<rparr>]"

section \<open>Header: scroll state\<close>

text \<open>
  C9. After the scroll handler has run at scroll offset \<open>s\<close>, the header carries the
  class \<^verbatim>\<open>scrolled\<close> exactly when \<open>s > 50\<close>; this holds for the handler itself and for
  its throttled wrapper whenever the wrapper lets the call through.
\<close>

theorem C9_scrolled_iff_above_threshold:
  "(''scrolled'' \<in> headerClassList (scrollHandler st)) = (windowScrollY st > 50)
   \<and> (\<not> inThrottle st \<longrightarrow>
        (''scrolled'' \<in> headerClassList (throttle scrollHandler st)) = (windowScrollY st > 50))"
  by (simp add: scrollHandler_def throttle_def SCROLL_THRESHOLD_def Let_def)

text \<open>C9 at the offsets 120 and 50 of a fresh page.\<close>

theorem C9_witness:
  "\<not> inThrottle (newHeader 120 80 Map.empty)
   \<and> ''scrolled'' \<in> headerClassList (throttle scrollHandler (newHeader 120 80 Map.empty))
   \<and> ''scrolled'' \<notin> headerClassList (throttle scrollHandler (newHeader 50 80 Map.empty))"
  using C9_scrolled_iff_above_threshold [of "newHeader 120 80 Map.empty"]
        C9_scrolled_iff_above_threshold [of "newHeader 50 80 Map.empty"]
  by (simp add: newHeader_def)

section \<open>Header: scroll lock\<close>

lemmas header_defs = toggleMenu_def closeMenu_def disableScroll_def enableScroll_def
  scrollToInstant_def scrollToSmooth_def pushState_def preventDefault_def

text \<open>
  C1. With the menu closed and the page at offset \<open>p\<close>, opening the menu saves \<open>p\<close>
  and pins the body (\<^verbatim>\<open>position: fixed\<close>, \<^verbatim>\<open>top\<close> the text of \<open>-p\<close> pixels). Whatever
  offset \<open>y\<close> the window shows while the body is pinned, closing the menu (by the
  toggle, by \<^verbatim>\<open>closeMenu\<close>, or by the Escape key) puts the window back at exactly \<open>p\<close>.
\<close>

theorem C1_open_then_close_restores_scroll:
  assumes "\<not> isMenuOpen st" and "windowScrollY st = p"
  shows "isMenuOpen (toggleMenu st)
    \<and> scrollPosition (toggleMenu st) = p
    \<and> bodyStyle (toggleMenu st) ''position'' = ''fixed''
    \<and> bodyStyle (toggleMenu st) ''top'' = ''-'' @ showInt p @ ''px''
    \<and> windowScrollY (toggleMenu ((toggleMenu st)\<lparr>windowScrollY := y\<rparr>)) = p
    \<and> windowScrollY (closeMenu ((toggleMenu st)\<lparr>windowScrollY := y\<rparr>)) = p
    \<and> windowScrollY (escapeKeydown ''Escape'' ((toggleMenu st)\<lparr>windowScrollY := y\<rparr>)) = p"
  using assms by (simp add: header_defs escapeKeydown_def Let_def)

text \<open>C1 on a fresh page at offset 734 that the browser shows at 0 while locked.\<close>

theorem C1_witness:
  "\<not> isMenuOpen (newHeader 734 80 Map.empty)
   \<and> windowScrollY (newHeader 734 80 Map.empty) = 734
   \<and> bodyStyle (toggleMenu (newHeader 734 80 Map.empty)) ''top'' = ''-734px''
   \<and> windowScrollY
        (toggleMenu ((toggleMenu (newHeader 734 80 Map.empty))\<lparr>windowScrollY := 0\<rparr>)) = 734"
  using C1_open_then_close_restores_scroll [of "newHeader 734 80 Map.empty" 734 0]
  by (simp add: newHeader_def showInt_def showNat.simps)

section \<open>Header: anchor navigation while the menu is open\<close>

text \<open>
  A \<^verbatim>\<open>.nav-item\<close> carries the listener that closes the menu before the one that
  scrolls: there the menu is closed first and the smooth scroll to the target stays
  in progress.
\<close>

lemma navItem_click_closes_first:
  "(let st = clickLink \<lparr>linkHref = Some ''#about'', inNavLinks = False, inNavItems = True\<rparr>
               ((toggleMenu (newHeader 734 80 exampleTargets))\<lparr>windowScrollY := 0\<rparr>)
    in apiCalls st = [ScrollToInstant 734, PreventDefault, ScrollToSmooth 1920, PushState ''#about'']
       \<and> smoothScrollTarget st = Some 1920 \<and> \<not> isMenuOpen st)"
  by (simp add: exampleTargets_def clickLink_def smoothScrollClick_def header_defs
      newHeader_def Let_def)

text \<open>
  C2. The claim: activating a fragment link while the menu is open closes the menu
  first and then scrolls to the target's top minus the header height. On a link of
  \<^verbatim>\<open>navLinks\<close> the code does otherwise. Menu opened at offset 734, header 80 high,
  target \<^verbatim>\<open>about\<close> at 2000: the smooth scroll to 1920 is requested while the menu is
  still open; \<^verbatim>\<open>closeMenu\<close> runs after it, and its \<^verbatim>\<open>enableScroll\<close> scrolls the
  window to the saved 734, which ends the smooth scroll. The window stays at 734.
\<close>

theorem C2_scroll_requested_before_close_is_overridden:
  "(let st = clickLink \<lparr>linkHref = Some ''#about'', inNavLinks = True, inNavItems = False\<rparr>
               ((toggleMenu (newHeader 734 80 exampleTargets))\<lparr>windowScrollY := 0\<rparr>)
    in apiCalls st = [PreventDefault, ScrollToSmooth 1920, ScrollToInstant 734, PushState ''#about'']
       \<and> windowScrollY st = 734 \<and> smoothScrollTarget st = None \<and> \<not> isMenuOpen st)"
  by (simp add: exampleTargets_def clickLink_def smoothScrollClick_def header_defs
      newHeader_def Let_def)

section \<open>Application start: what is constructed\<close>

lemma pushNew_constructed:
  "constructed (fst (pushNew throws cs st)) = constructed st @ takeWhile (\<lambda>c. \<not> throws c) cs"
  by (induction cs arbitrary: st) simp_all

lemma initializeComponents_constructed:
  assumes "MiniPolaroids \<notin> set (constructed st)"
  shows "MiniPolaroids \<notin> set (constructed (initializeComponents throws st))"
proof -
  have "set (takeWhile (\<lambda>c. \<not> throws c)
          [ScrollAnimations, Portfolio, FooterAnimations, PerformanceOptimizer,
           AccessibilityEnhancer, ErrorHandler])
        \<subseteq> {ScrollAnimations, Portfolio, FooterAnimations, PerformanceOptimizer,
           AccessibilityEnhancer, ErrorHandler}"
    using set_takeWhileD by fastforce
  with assms pushNew_constructed [of throws _ st] show ?thesis
    by (auto simp: initializeComponents_def split: prod.splits)
qed

lemma runDomListener_constructed:
  "MiniPolaroids \<notin> set (constructed st) \<Longrightarrow>
   MiniPolaroids \<notin> set (constructed (runDomListener throws l st))"
  by (cases l) (simp_all add: initializeComponents_constructed)

lemma fold_runDomListener_constructed:
  "MiniPolaroids \<notin> set (constructed st) \<Longrightarrow>
   MiniPolaroids \<notin> set (constructed (fold (runDomListener throws) ls st))"
  by (induction ls arbitrary: st) (simp_all add: runDomListener_constructed)

lemma loadPage_all_succeed:
  "set (constructed (loadPage (\<lambda>_. False) loading)) =
     {ScrollAnimations, Portfolio, FooterAnimations, PerformanceOptimizer,
      AccessibilityEnhancer, ErrorHandler, Header}"
  by (cases loading)
     (auto simp: loadPage_def domContentLoaded_def mainScript_def headerScript_def
        emptyPage_def initializeComponents_def)

text \<open>
  C3. The claim: every component of the overview, the draggable decoration among
  them, is constructed at page load. Whatever the constructors do and whether or not
  the document is still loading when \<^verbatim>\<open>main.js\<close> runs, page load constructs no
  \<^verbatim>\<open>MiniPolaroids\<close>; when no constructor throws it constructs exactly the seven others.
\<close>

theorem C3_miniPolaroids_never_constructed:
  "MiniPolaroids \<notin> set (constructed (loadPage throws loading))
   \<and> set (constructed (loadPage (\<lambda>_. False) loading)) =
       {ScrollAnimations, Portfolio, FooterAnimations, PerformanceOptimizer,
        AccessibilityEnhancer, ErrorHandler, Header}"
proof
  show "MiniPolaroids \<notin> set (constructed (loadPage throws loading))"
    unfolding loadPage_def domContentLoaded_def
    by (rule fold_runDomListener_constructed, cases loading)
       (simp_all add: mainScript_def headerScript_def emptyPage_def
          initializeComponents_constructed)
  show "set (constructed (loadPage (\<lambda>_. False) loading)) =
       {ScrollAnimations, Portfolio, FooterAnimations, PerformanceOptimizer,
        AccessibilityEnhancer, ErrorHandler, Header}"
    by (rule loadPage_all_succeed)
qed

section \<open>Portfolio: fast tap\<close>

text \<open>
  C10. A press at time \<open>t0\<close> and a release at time \<open>t1\<close> on item \<open>i\<close>: when
  \<open>t1 - t0 < 200\<close> the item's touched state is toggled and no other item is touched
  afterwards, so at most one item is; when \<open>t1 - t0 \<ge> 200\<close> no class list changes.
\<close>

theorem C10_fast_tap_toggles_slow_press_does_not:
  assumes "i < length items"
  shows "(t1 - t0 < 200 \<longrightarrow>
           (let r = touchend i t1 (touchstart i t0 items) in
              length r = length items
              \<and> touched (r ! i) = (\<not> touched (items ! i))
              \<and> (\<forall>j < length items. j \<noteq> i \<longrightarrow> \<not> touched (r ! j))
              \<and> (\<forall>j < length r. \<forall>k < length r. touched (r ! j) \<and> touched (r ! k) \<longrightarrow> j = k)))
       \<and> (200 \<le> t1 - t0 \<longrightarrow>
            map itemClassList (touchend i t1 (touchstart i t0 items)) = map itemClassList items)"
proof (intro conjI impI)
  assume "t1 - t0 < 200"
  with assms show "let r = touchend i t1 (touchstart i t0 items) in
              length r = length items
              \<and> touched (r ! i) = (\<not> touched (items ! i))
              \<and> (\<forall>j < length items. j \<noteq> i \<longrightarrow> \<not> touched (r ! j))
              \<and> (\<forall>j < length r. \<forall>k < length r. touched (r ! j) \<and> touched (r ! k) \<longrightarrow> j = k)"
    by (simp add: touchend_def touchstart_def Let_def touched_def classToggle_def)
next
  assume "200 \<le> t1 - t0"
  with assms show "map itemClassList (touchend i t1 (touchstart i t0 items)) = map itemClassList items"
    by (simp add: touchend_def touchstart_def Let_def map_update list_update_same_conv)
qed

text \<open>C10 on two items, the second one touched: a tap of 150 ms on the first, and a
  press of 300 ms on it.\<close>

theorem C10_witness:
  "0 < length exampleItems
   \<and> (1150 :: int) - 1000 < 200
   \<and> map touched (touchend 0 1150 (touchstart 0 1000 exampleItems)) = [True, False]
   \<and> (200 :: int) \<le> 1300 - 1000
   \<and> map itemClassList (touchend 0 1300 (touchstart 0 1000 exampleItems))
       = map itemClassList exampleItems"
  using C10_fast_tap_toggles_slow_press_does_not [of 0 exampleItems 1150 1000]
        C10_fast_tap_toggles_slow_press_does_not [of 0 exampleItems 1300 1000]
  by (simp add: exampleItems_def touchend_def touchstart_def touched_def classToggle_def)

section \<open>Statistics: the number animation\<close>





subsection \<open>The values over the frames\<close>


















section \<open>Viewport watchers: one-shot effects\<close>

lemma statEntry_once:
  assumes "count_list (animateNumberCalls st) el \<le> 1"
      and "count_list (animateNumberCalls st) el = 1 \<longrightarrow> ''animated'' \<in> statClassList st el"
  shows "count_list (animateNumberCalls (statEntry now e st)) el \<le> 1
       \<and> (count_list (animateNumberCalls (statEntry now e st)) el = 1 \<longrightarrow>
            ''animated'' \<in> statClassList (statEntry now e st) el)"
  using assms
  by (auto simp: statEntry_def Let_def split: option.splits)

lemma fold_statEntry_once:
  assumes "count_list (animateNumberCalls st) el \<le> 1"
      and "count_list (animateNumberCalls st) el = 1 \<longrightarrow> ''animated'' \<in> statClassList st el"
  shows "count_list (animateNumberCalls (fold (statEntry now) es st)) el \<le> 1
       \<and> (count_list (animateNumberCalls (fold (statEntry now) es st)) el = 1 \<longrightarrow>
            ''animated'' \<in> statClassList (fold (statEntry now) es st) el)"
  using assms
proof (induction es arbitrary: st)
  case Nil
  then show ?case by simp
next
  case (Cons e es)
  note step = statEntry_once [OF Cons.prems, of now e]
  from Cons.IH [OF step [THEN conjunct1] step [THEN conjunct2]] show ?case
    by simp
qed

lemma fold_statObserver_once:
  assumes "count_list (animateNumberCalls st) el \<le> 1"
      and "count_list (animateNumberCalls st) el = 1 \<longrightarrow> ''animated'' \<in> statClassList st el"
  shows "count_list (animateNumberCalls (fold statObserver bs st)) el \<le> 1"
  using assms
proof (induction bs arbitrary: st)
  case Nil
  then show ?case by simp
next
  case (Cons b bs)
  note step = fold_statEntry_once [OF Cons.prems, of "fst b" "snd b"]
  from Cons.IH [of "statObserver b st"] step show ?case
    by (simp add: statObserver_def)
qed

lemma imageEntry_once:
  assumes "count_list (srcSwaps st) img \<le> 1"
      and "count_list (srcSwaps st) img = 1 \<longrightarrow> imgDataSrc st img = None"
  shows "count_list (srcSwaps (imageEntry e st)) img \<le> 1
       \<and> (count_list (srcSwaps (imageEntry e st)) img = 1 \<longrightarrow>
            imgDataSrc (imageEntry e st) img = None)"
  using assms
  by (auto simp: imageEntry_def Let_def split: option.splits)

lemma fold_imageEntry_once:
  assumes "count_list (srcSwaps st) img \<le> 1"
      and "count_list (srcSwaps st) img = 1 \<longrightarrow> imgDataSrc st img = None"
  shows "count_list (srcSwaps (fold imageEntry es st)) img \<le> 1
       \<and> (count_list (srcSwaps (fold imageEntry es st)) img = 1 \<longrightarrow>
            imgDataSrc (fold imageEntry es st) img = None)"
  using assms
proof (induction es arbitrary: st)
  case Nil
  then show ?case by simp
next
  case (Cons e es)
  note step = imageEntry_once [OF Cons.prems, of e]
  from Cons.IH [OF step [THEN conjunct1] step [THEN conjunct2]] show ?case
    by simp
qed

lemma fold_imageObserver_once:
  assumes "count_list (srcSwaps st) img \<le> 1"
      and "count_list (srcSwaps st) img = 1 \<longrightarrow> imgDataSrc st img = None"
  shows "count_list (srcSwaps (fold imageObserver bs st)) img \<le> 1"
  using assms
proof (induction bs arbitrary: st)
  case Nil
  then show ?case by simp
next
  case (Cons b bs)
  note step = fold_imageEntry_once [OF Cons.prems, of b]
  from Cons.IH [of "imageObserver b st"] step show ?case
    by (simp add: imageObserver_def)
qed

text \<open>An image that an intersecting entry has reached is no longer observed.\<close>

lemma imageEntry_unobserves: "snd e \<Longrightarrow> fst e \<notin> observedImages (imageEntry e st)"
  by (simp add: imageEntry_def Let_def split: option.splits)

lemma triggerAnimations_distinct:
  "footerTimers st = [] \<Longrightarrow> distinct (map snd (footerTimers (triggerAnimations st)))"
  by (auto simp: triggerAnimations_def distinct_map comp_def inj_on_def)

lemma footerEntry_once:
  assumes "isAnimated st \<or> footerTimers st = []" and "distinct (map snd (footerTimers st))"
  shows "(isAnimated (footerEntry e st) \<or> footerTimers (footerEntry e st) = [])
       \<and> distinct (map snd (footerTimers (footerEntry e st)))"
  using assms triggerAnimations_distinct [of st]
  by (auto simp: footerEntry_def)

lemma fold_footerEntry_once:
  assumes "isAnimated st \<or> footerTimers st = []" and "distinct (map snd (footerTimers st))"
  shows "(isAnimated (fold footerEntry es st) \<or> footerTimers (fold footerEntry es st) = [])
       \<and> distinct (map snd (footerTimers (fold footerEntry es st)))"
  using assms
proof (induction es arbitrary: st)
  case Nil
  then show ?case by simp
next
  case (Cons e es)
  note step = footerEntry_once [OF Cons.prems, of e]
  from Cons.IH [OF step [THEN conjunct1] step [THEN conjunct2]] show ?case
    by simp
qed

lemma fold_footerObserver_once:
  assumes "isAnimated st \<or> footerTimers st = []" and "distinct (map snd (footerTimers st))"
  shows "distinct (map snd (footerTimers (fold footerObserver bs st)))"
  using assms
proof (induction bs arbitrary: st)
  case Nil
  then show ?case by simp
next
  case (Cons b bs)
  note step = fold_footerEntry_once [OF Cons.prems, of b]
  from Cons.IH [of "footerObserver b st"] step show ?case
    by (simp add: footerObserver_def)
qed

lemma distinct_count_list_le1: "distinct xs \<Longrightarrow> count_list xs x \<le> 1"
  by (induction xs) auto

text \<open>
  C8. From the state each constructor leaves, and for every sequence of batches of
  entries the observers deliver, whatever their targets and whether they enter or
  leave: \<^verbatim>\<open>animateNumber\<close> is called at most once for a statistic \<open>el\<close>; the source
  of an image \<open>img\<close> is swapped at most once; no footer timer is started twice, so
  \<^verbatim>\<open>triggerAnimations\<close> runs at most once.
\<close>

theorem C8_one_shot_effects_at_most_once:
  "count_list (animateNumberCalls
       (fold statObserver statBatches (newScrollAnimations cls txts))) el \<le> 1
   \<and> count_list (srcSwaps
       (fold imageObserver imageBatches (newLazyImages srcs dataSrcs imgs))) img \<le> 1
   \<and> distinct (map snd (footerTimers
       (fold footerObserver footerBatches (newFooterAnimations n))))
   \<and> count_list (map snd (footerTimers
       (fold footerObserver footerBatches (newFooterAnimations n)))) AnimateTop \<le> 1"
proof (intro conjI)
  show "count_list (animateNumberCalls
          (fold statObserver statBatches (newScrollAnimations cls txts))) el \<le> 1"
    by (rule fold_statObserver_once) (simp_all add: newScrollAnimations_def)
  show "count_list (srcSwaps
          (fold imageObserver imageBatches (newLazyImages srcs dataSrcs imgs))) img \<le> 1"
    by (rule fold_imageObserver_once) (simp_all add: newLazyImages_def)
  show d: "distinct (map snd (footerTimers
          (fold footerObserver footerBatches (newFooterAnimations n))))"
    by (rule fold_footerObserver_once) (simp_all add: newFooterAnimations_def)
  show "count_list (map snd (footerTimers
          (fold footerObserver footerBatches (newFooterAnimations n)))) AnimateTop \<le> 1"
    using d by (rule distinct_count_list_le1)
qed

section \<open>Draggable polaroids: scope and clamping\<close>

lemmas js_defs = thenJS_def returnJS_def liftJS_def getVar_def setVar_def updatePolaroid_def
  readAboutRect_def readElementRect_def

lemma dragStart_unbound:
  assumes "globals st ''xOffset'' = None"
  shows "snd (dragStart e inside i st) = st"
    and "eventClient ''mousedown'' e = Inr c \<Longrightarrow>
           fst (dragStart e inside i st) = Inl (ReferenceError ''xOffset'')"
  using assms
  by (auto simp: dragStart_def thenJS_def liftJS_def getVar_def split: sum.splits prod.splits)

lemma dragMove_idle:
  "\<not> isDragging (polaroids st ! i) \<Longrightarrow> dragMove e i st = (Inr (), st)"
  by (simp add: dragMove_def)

lemma dragEnd_quiet:
  assumes "globals st ''xOffset'' = None"
      and "\<forall>p \<in> set (polaroids st). \<not> isDragging p"
      and "i < length (polaroids st)"
  shows "globals (snd (dragEnd i st)) ''xOffset'' = None
       \<and> (\<forall>p \<in> set (polaroids (snd (dragEnd i st))). \<not> isDragging p)
       \<and> map transform (polaroids (snd (dragEnd i st))) = map transform (polaroids st)"
proof -
  have keep: "\<forall>p \<in> set ((polaroids st)
                 [i := (polaroids st ! i)\<lparr>isDragging := False, cursor := ''pointer''\<rparr>]).
                \<not> isDragging p"
    using assms(2) by (auto dest!: set_update_subset_insert [THEN subsetD])
  have same: "map transform ((polaroids st)
                 [i := (polaroids st ! i)\<lparr>isDragging := False, cursor := ''pointer''\<rparr>])
                = map transform (polaroids st)"
    using assms(3) by (simp add: map_update list_update_same_conv)
  show ?thesis
    using assms keep same
    by (auto simp: dragEnd_def js_defs split: option.splits)
qed

text \<open>A round of listeners, one per polaroid, each of which keeps \<^verbatim>\<open>xOffset\<close>
  unbound, every polaroid idle and every transform as it was.\<close>

lemma fold_quiet:
  assumes step: "\<And>i s. globals s ''xOffset'' = None \<Longrightarrow>
              \<forall>p \<in> set (polaroids s). \<not> isDragging p \<Longrightarrow>
              i < length (polaroids s) \<Longrightarrow>
              globals (snd (h i s)) ''xOffset'' = None
              \<and> (\<forall>p \<in> set (polaroids (snd (h i s))). \<not> isDragging p)
              \<and> map transform (polaroids (snd (h i s))) = map transform (polaroids s)"
      and "globals st ''xOffset'' = None"
      and "\<forall>p \<in> set (polaroids st). \<not> isDragging p"
      and "\<forall>i \<in> set is. i < length (polaroids st)"
  shows "globals (fold (\<lambda>i. runListener (h i)) is st) ''xOffset'' = None
       \<and> (\<forall>p \<in> set (polaroids (fold (\<lambda>i. runListener (h i)) is st)). \<not> isDragging p)
       \<and> map transform (polaroids (fold (\<lambda>i. runListener (h i)) is st))
           = map transform (polaroids st)"
  using assms(2-)
proof (induction "is" arbitrary: st)
  case Nil
  then show ?case by simp
next
  case (Cons i "is")
  from Cons.prems have i: "i < length (polaroids st)" by simp
  note s = step [OF Cons.prems(1) Cons.prems(2) i]
  from s have len: "length (polaroids (snd (h i st))) = length (polaroids st)"
    by (metis length_map)
  have "\<forall>j \<in> set is. j < length (polaroids (snd (h i st)))"
    using Cons.prems(3) len by simp
  from Cons.IH [OF s [THEN conjunct1] s [THEN conjunct2, THEN conjunct1] this] s
  show ?case by (simp add: runListener_def)
qed

lemma pointerDispatch_quiet:
  assumes "globals st ''xOffset'' = None"
      and "\<forall>p \<in> set (polaroids st). \<not> isDragging p"
  shows "globals (pointerDispatch ev st) ''xOffset'' = None
       \<and> (\<forall>p \<in> set (polaroids (pointerDispatch ev st)). \<not> isDragging p)
       \<and> map transform (polaroids (pointerDispatch ev st)) = map transform (polaroids st)"
proof -
  have move: "\<And>e. globals (forEachPolaroid (dragMove e) st) ''xOffset'' = None
       \<and> (\<forall>p \<in> set (polaroids (forEachPolaroid (dragMove e) st)). \<not> isDragging p)
       \<and> map transform (polaroids (forEachPolaroid (dragMove e) st))
           = map transform (polaroids st)"
    unfolding forEachPolaroid_def
    by (rule fold_quiet) (use assms in \<open>simp_all add: dragMove_idle\<close>)
  have release: "globals (forEachPolaroid dragEnd st) ''xOffset'' = None
       \<and> (\<forall>p \<in> set (polaroids (forEachPolaroid dragEnd st)). \<not> isDragging p)
       \<and> map transform (polaroids (forEachPolaroid dragEnd st)) = map transform (polaroids st)"
    unfolding forEachPolaroid_def
    by (rule fold_quiet) (use assms dragEnd_quiet in \<open>simp_all\<close>)
  show ?thesis
    using assms move release
    by (cases ev) (simp_all add: runListener_def dragStart_unbound(1))
qed

lemma interactions_quiet:
  assumes "globals st ''xOffset'' = None"
      and "\<forall>p \<in> set (polaroids st). \<not> isDragging p"
  shows "(\<forall>p \<in> set (polaroids (fold pointerDispatch evs st)). \<not> isDragging p)
       \<and> map transform (polaroids (fold pointerDispatch evs st)) = map transform (polaroids st)"
  using assms
proof (induction evs arbitrary: st)
  case Nil
  then show ?case by simp
next
  case (Cons ev evs)
  note s = pointerDispatch_quiet [OF Cons.prems, of ev]
  from Cons.IH [OF s [THEN conjunct1] s [THEN conjunct2, THEN conjunct1]] s
  show ?case by simp
qed

text \<open>
  C4. On a page that binds none of \<^verbatim>\<open>initialX\<close>, \<^verbatim>\<open>initialY\<close>, \<^verbatim>\<open>xOffset\<close>,
  \<^verbatim>\<open>yOffset\<close>, and whose polaroids carry no dragging flag yet: \<^verbatim>\<open>dragStart\<close> on a
  mouse press or on a touch with at least one contact throws \<^verbatim>\<open>ReferenceError\<close> for
  \<^verbatim>\<open>xOffset\<close>; it leaves the state as it was, so the flag is not set; and after any
  sequence of presses, moves and releases, by mouse or touch, no polaroid is flagged
  and every transform is what it was.
\<close>

theorem C4_dragStart_throws_and_no_transform_changes:
  assumes "globals st ''initialX'' = None" and "globals st ''initialY'' = None"
      and "globals st ''xOffset'' = None" and "globals st ''yOffset'' = None"
      and "list_all (\<lambda>p. \<not> isDragging p) (polaroids st)"
  shows "fst (dragStart (MouseEv ''mousedown'' x y) inside i st) = Inl (ReferenceError ''xOffset'')
       \<and> fst (dragStart (TouchEv (t # ts)) inside i st) = Inl (ReferenceError ''xOffset'')
       \<and> snd (dragStart e inside i st) = st
       \<and> list_all (\<lambda>p. \<not> isDragging p) (polaroids (fold pointerDispatch evs st))
       \<and> map transform (polaroids (fold pointerDispatch evs st)) = map transform (polaroids st)"
proof -
  have mouse: "eventClient ''mousedown'' (MouseEv ''mousedown'' x y) = Inr (x, y)"
    by (simp add: eventClient_def)
  have touch: "eventClient ''mousedown'' (TouchEv (t # ts)) = Inr t"
    by (simp add: eventClient_def)
  from assms(5) have idle: "\<forall>p \<in> set (polaroids st). \<not> isDragging p"
    by (simp add: list_all_iff)
  from dragStart_unbound(2) [OF assms(3) mouse] dragStart_unbound(2) [OF assms(3) touch]
       dragStart_unbound(1) [OF assms(3)] interactions_quiet [OF assms(3) idle, of evs]
  show ?thesis by (simp add: list_all_iff)
qed

text \<open>C4 on a page with one polaroid and no global binding, for a press, a move and
  a release by mouse and then by touch.\<close>

theorem C4_witness:
  "globals (examplePage Map.empty 400 300 100 120) ''initialX'' = None
   \<and> globals (examplePage Map.empty 400 300 100 120) ''initialY'' = None
   \<and> globals (examplePage Map.empty 400 300 100 120) ''xOffset'' = None
   \<and> globals (examplePage Map.empty 400 300 100 120) ''yOffset'' = None
   \<and> list_all (\<lambda>p. \<not> isDragging p) (polaroids (examplePage Map.empty 400 300 100 120))
   \<and> fst (dragStart (MouseEv ''mousedown'' 5 5) True 0 (examplePage Map.empty 400 300 100 120))
       = Inl (ReferenceError ''xOffset'')
   \<and> map transform (polaroids (fold pointerDispatch
         [MouseDown 0 5 5, MouseMove 50 60, MouseUp,
          TouchStart 0 [(5, 5)], TouchMove [(9, 9)], TouchEnd]
         (examplePage Map.empty 400 300 100 120))) = [None]"
  using C4_dragStart_throws_and_no_transform_changes
          [where st = "examplePage Map.empty 400 300 100 120" and x = "5" and y = "5"
             and inside = "True" and i = "0"
             and evs = "[MouseDown 0 5 5, MouseMove 50 60, MouseUp,
                         TouchStart 0 [(5, 5)], TouchMove [(9, 9)], TouchEnd]"]
  by (simp add: examplePage_def examplePolaroid_def)




end
